theory Spec2Isabelle
  imports Complex_Main "HOL-Library.Sublist" "HOL-Library.Word"
begin

section \<open>The prompt debugger of \<^verbatim>\<open>src/app.py\<close>\<close>

text \<open>
  The program is a Streamlit page. Its logic is the class \<^verbatim>\<open>PromptDebugger\<close> (the
  constructor reads two credentials, \<^verbatim>\<open>analyze_prompt\<close> renders an instruction from
  the form's values, sends it to one of two providers and decodes the reply) and the
  function \<^verbatim>\<open>main\<close> (reads the widgets, assembles the conversation history, checks
  the required fields and calls \<^verbatim>\<open>analyze_prompt\<close>).

  Conventions of the model.
  \<^item> A Python \<^verbatim>\<open>str\<close> is a \<^typ>\<open>string\<close>; each \<^typ>\<open>char\<close> stands for one code point
    below 256.
  \<^item> What the program shows or sends is recorded as a list of events, in program
    order: \<^verbatim>\<open>st.error\<close>, \<^verbatim>\<open>st.warning\<close>, \<^verbatim>\<open>st.json\<close> and the two calls into the
    provider libraries. Titles, headings, the spinner and the style sheet are not
    recorded.
  \<^item> The provider libraries and \<^verbatim>\<open>json.loads\<close> are not code of this program: they
    are parameters (the record \<open>env\<close>), each returning either the text \<^verbatim>\<open>str(e)\<close> of
    the exception it raises (\<open>Inl\<close>) or its result (\<open>Inr\<close>).
  \<^item> \<^verbatim>\<open>st.secrets\<close> is a dictionary from names to values.
\<close>

subsection \<open>Data\<close>

text \<open>One entry of the conversation history: the dictionary
  \<^verbatim>\<open>{"role": ..., "content": ...}\<close>, its two keys in this order.\<close>

record message =
  role :: string
  content :: string

text \<open>The dictionary \<^verbatim>\<open>inputs\<close> that \<^verbatim>\<open>main\<close> builds and \<^verbatim>\<open>analyze_prompt\<close> reads.\<close>

record inputs =
  bot_type :: string
  system_prompt :: string
  conversation_history :: "message list"
  defective_user_message :: string
  defective_agent_response :: string
  defective_description :: string
  agent_interpretation :: string
  expected_behavior :: string
  behavioral_guidelines :: string
  provider :: string
  model :: string

text \<open>A value returned by \<^verbatim>\<open>json.loads\<close>. A dictionary keeps its keys in insertion
  order; a float is its 64 bits.\<close>

datatype json =
    JNull
  | JBool bool
  | JInt int
  | JFloat "64 word"
  | JString string
  | JArray "json list"
  | JObject "(string \<times> json) list"

text \<open>The keyword arguments of \<^verbatim>\<open>anthropic_client.messages.create\<close> and of
  \<^verbatim>\<open>openai.ChatCompletion.create\<close>.\<close>

record anthropic_request =
  a_model :: string
  a_max_tokens :: int
  a_messages :: "message list"

record openai_request =
  o_model :: string
  o_messages :: "message list"
  o_max_tokens :: int
  o_temperature :: real

text \<open>The observable effects. \<open>Anthropic_create k r\<close>: the client built with the key
  \<open>k\<close> is asked to send \<open>r\<close>. \<open>OpenAI_create k r\<close>: the OpenAI library is asked to
  send \<open>r\<close> while \<^verbatim>\<open>openai.api_key\<close> is \<open>k\<close>.\<close>

datatype event =
    StError string
  | StWarning string
  | StJson json
  | Anthropic_create string anthropic_request
  | OpenAI_create "string option" openai_request

text \<open>The libraries. A provider call returns the texts of the reply's items
  (\<^verbatim>\<open>response.content[i].text\<close>, \<^verbatim>\<open>response.choices[i].message.content\<close>).\<close>

record env =
  messages_create :: "string \<Rightarrow> anthropic_request \<Rightarrow> string + string list"
  chat_completion_create :: "string option \<Rightarrow> openai_request \<Rightarrow> string + string list"
  json_loads :: "string \<Rightarrow> string + json"

text \<open>What \<^verbatim>\<open>__init__\<close> leaves behind: the attribute \<^verbatim>\<open>self.anthropic_client\<close>
  (\<open>None\<close> when it was never assigned; otherwise the key the client holds) and the
  module attribute \<^verbatim>\<open>openai.api_key\<close>.\<close>

record debugger =
  anthropic_client :: "string option"
  openai_api_key :: "string option"

subsection \<open>\<^verbatim>\<open>PromptDebugger.__init__\<close>\<close>

text \<open>The two assignments sit in one \<^verbatim>\<open>try\<close>: the first missing key ends the block,
  so a missing Anthropic key also leaves \<^verbatim>\<open>openai.api_key\<close> at its previous value
  \<open>prior\<close>.\<close>

definition init :: "(string \<rightharpoonup> string) \<Rightarrow> string option \<Rightarrow> debugger \<times> event list" where
  "init secrets prior =
     (case secrets ''ANTHROPIC_API_KEY'' of
        None \<Rightarrow>
          (\<lparr>anthropic_client = None, openai_api_key = prior\<rparr>,
           [StError ''Missing API keys in Streamlit secrets.''])
      | Some a \<Rightarrow>
          (case secrets ''OPENAI_API_KEY'' of
             None \<Rightarrow>
               (\<lparr>anthropic_client = Some a, openai_api_key = prior\<rparr>,
                [StError ''Missing API keys in Streamlit secrets.''])
           | Some b \<Rightarrow>
               (\<lparr>anthropic_client = Some a, openai_api_key = Some b\<rparr>, [])))"

definition model_providers :: "(string \<times> (string \<times> string) list) list" where
  "model_providers =
     [(''Anthropic'',
         [(''claude-3-opus-20240229'', ''Claude 3 Opus''),
          (''claude-3-sonnet-20240229'', ''Claude 3 Sonnet''),
          (''claude-3-haiku-20240307'', ''Claude 3 Haiku'')]),
      (''OpenAI'',
         [(''gpt-4o'', ''GPT-4o''),
          (''gpt-4'', ''GPT-4''),
          (''gpt-3.5-turbo'', ''GPT-3.5 Turbo'')])]"

subsection \<open>\<^verbatim>\<open>json.dumps(conversation_history, indent=2)\<close>\<close>

text \<open>The string encoder of \<^verbatim>\<open>json.dumps\<close> with its default \<^verbatim>\<open>ensure_ascii=True\<close>:
  backslash, double quote and every character outside \<^verbatim>\<open>' '..'~'\<close> are escaped, the
  five short escapes first, the rest as \<^verbatim>\<open>\u00xx\<close> in lower-case hexadecimal. The
  model has no code points beyond 255; for those the library writes four
  hexadecimal digits, and a pair of surrogates beyond U+FFFF.\<close>

definition hexdigit :: "nat \<Rightarrow> char" where
  "hexdigit n = ''0123456789abcdef'' ! (n mod 16)"

definition escape_char :: "char \<Rightarrow> string" where
  "escape_char c =
     (if c = CHR 0x5C then [CHR 0x5C, CHR 0x5C]
      else if c = CHR 0x22 then [CHR 0x5C, CHR 0x22]
      else if c = CHR 0x08 then [CHR 0x5C, CHR ''b'']
      else if c = CHR 0x0C then [CHR 0x5C, CHR ''f'']
      else if c = CHR 0x0A then [CHR 0x5C, CHR ''n'']
      else if c = CHR 0x0D then [CHR 0x5C, CHR ''r'']
      else if c = CHR 0x09 then [CHR 0x5C, CHR ''t'']
      else if 0x20 \<le> (of_char c :: nat) \<and> (of_char c :: nat) \<le> 0x7E then [c]
      else [CHR 0x5C, CHR ''u'', CHR ''0'', CHR ''0'',
            hexdigit (of_char c div 16), hexdigit (of_char c mod 16)])"

definition encode_string :: "string \<Rightarrow> string" where
  "encode_string s = [CHR 0x22] @ concat (map escape_char s) @ [CHR 0x22]"

text \<open>One dictionary of the list, at nesting level one of an indent of two.\<close>

definition dumps_message :: "message \<Rightarrow> string" where
  "dumps_message m =
     ''  {\<newline>    \"role\": '' @ encode_string (role m) @
     '',\<newline>    \"content\": '' @ encode_string (content m) @
     ''\<newline>  }''"

fun join :: "string \<Rightarrow> string list \<Rightarrow> string" where
  "join sep [] = []"
| "join sep [x] = x"
| "join sep (x # y # ys) = x @ sep @ join sep (y # ys)"

definition json_dumps :: "message list \<Rightarrow> string" where
  "json_dumps ms =
     (if ms = [] then ''[]''
      else ''[\<newline>'' @ join '',\<newline>'' (map dumps_message ms) @ ''\<newline>]'')"

subsection \<open>\<^verbatim>\<open>PromptDebugger.analyze_prompt\<close>\<close>

text \<open>The f-string, cut at its nine replacement fields. \<^verbatim>\<open>{{\<close> and \<^verbatim>\<open>}}\<close> of the source
  are single braces in the result.\<close>

definition tasks_text :: string where
  "tasks_text =
     ''\<newline>\<newline>### Tasks:\<newline>'' @
     ''1. **Error Source Analysis**: Identify if the issue originates from the system prompt, guidelines, or model behavior.\<newline>'' @
     ''2. **Suggestions for Improvements**: Provide modifications to enhance the system prompt and guidelines.\<newline>'' @
     ''3. **Agent Interpretation Shift**: Explain how the agent's reasoning may change with the new modifications.\<newline>'' @
     ''\<newline>Output should be in JSON format:\<newline>''"

definition json_shape :: string where
  "json_shape =
     ''{\<newline>'' @
     ''    \"error_analysis\": { \"system_prompt\": \"...\", \"guidelines\": \"...\" },\<newline>'' @
     ''    \"suggestions\": { \"system_prompt\": \"...\", \"guidelines\": \"...\" },\<newline>'' @
     ''    \"interpretation_change\": \"...\"\<newline>'' @
     ''}''"

definition analysis_prompt :: "inputs \<Rightarrow> string" where
  "analysis_prompt i =
     ''\<newline>You are an AI expert specializing in debugging and analyzing conversational agent prompts.\<newline>'' @
     ''\<newline>Given the following inputs:\<newline>'' @
     ''\<newline>- **Bot Type**: '' @ bot_type i @
     ''\<newline>- **System Prompt**: '' @ system_prompt i @
     ''\<newline>- **Conversation History**: '' @ json_dumps (conversation_history i) @
     ''\<newline>- **Defective User Message**: '' @ defective_user_message i @
     ''\<newline>- **Defective Agent Response**: '' @ defective_agent_response i @
     ''\<newline>- **Issue Description**: '' @ defective_description i @
     ''\<newline>- **Agent's Interpretation**: '' @ agent_interpretation i @
     ''\<newline>- **Expected Behavior**: '' @ expected_behavior i @
     ''\<newline>- **Behavioral Guidelines**: '' @ behavioral_guidelines i @
     tasks_text @ json_shape @ ''\<newline>        ''"

text \<open>\<^verbatim>\<open>xs[0]\<close>: the first element, or \<^verbatim>\<open>IndexError\<close> with its message.\<close>

definition first_item :: "'a list \<Rightarrow> string + 'a" where
  "first_item xs = (case xs of [] \<Rightarrow> Inl ''list index out of range'' | x # _ \<Rightarrow> Inr x)"

definition anthropic_request_of :: "inputs \<Rightarrow> anthropic_request" where
  "anthropic_request_of i =
     \<lparr>a_model = model i, a_max_tokens = 4000,
      a_messages = [\<lparr>role = ''user'', content = analysis_prompt i\<rparr>]\<rparr>"

definition openai_request_of :: "inputs \<Rightarrow> openai_request" where
  "openai_request_of i =
     \<lparr>o_model = model i,
      o_messages = [\<lparr>role = ''system'', content = ''You are an expert AI debugger.''\<rparr>,
                    \<lparr>role = ''user'', content = analysis_prompt i\<rparr>],
      o_max_tokens = 4000, o_temperature = 0.2\<rparr>"

text \<open>The body of the \<^verbatim>\<open>try\<close>: the events it causes, and either the text of the
  exception that ends it or the value of \<^verbatim>\<open>result\<close>. Reading the attribute
  \<^verbatim>\<open>self.anthropic_client\<close> raises \<^verbatim>\<open>AttributeError\<close> when \<^verbatim>\<open>__init__\<close> never
  assigned it.\<close>

definition decode_first :: "env \<Rightarrow> string list \<Rightarrow> string + json" where
  "decode_first e texts =
     (case first_item texts of Inl err \<Rightarrow> Inl err | Inr text \<Rightarrow> json_loads e text)"

definition no_client_message :: string where
  "no_client_message =
     [CHR 0x27] @ ''PromptDebugger'' @ [CHR 0x27] @ '' object has no attribute '' @
     [CHR 0x27] @ ''anthropic_client'' @ [CHR 0x27]"

definition try_body :: "env \<Rightarrow> debugger \<Rightarrow> inputs \<Rightarrow> event list \<times> (string + json)" where
  "try_body e self i =
     (if provider i = ''Anthropic'' then
        (case anthropic_client self of
           None \<Rightarrow> ([], Inl no_client_message)
         | Some client \<Rightarrow>
             ([Anthropic_create client (anthropic_request_of i)],
              (case messages_create e client (anthropic_request_of i) of
                 Inl err \<Rightarrow> Inl err
               | Inr texts \<Rightarrow> decode_first e texts)))
      else
        ([OpenAI_create (openai_api_key self) (openai_request_of i)],
         (case chat_completion_create e (openai_api_key self) (openai_request_of i) of
            Inl err \<Rightarrow> Inl err
          | Inr texts \<Rightarrow> decode_first e texts)))"

text \<open>\<^verbatim>\<open>except Exception as e\<close>: report and return the empty dictionary.\<close>

definition analyze_prompt :: "env \<Rightarrow> debugger \<Rightarrow> inputs \<Rightarrow> json \<times> event list" where
  "analyze_prompt e self i =
     (case try_body e self i of
        (evs, Inr result) \<Rightarrow> (result, evs)
      | (evs, Inl err) \<Rightarrow> (JObject [], evs @ [StError (''Analysis Error: '' @ err)]))"

subsection \<open>\<^verbatim>\<open>main\<close>\<close>

text \<open>The state of the widgets when the script runs: the index chosen in each
  select box, the text of each text area (those of the exchanges by their number,
  from 0), the number input and whether the button was pressed.\<close>

record form =
  w_bot_type :: nat
  w_provider :: nat
  w_model :: nat
  w_system_prompt :: string
  w_behavioral_guidelines :: string
  w_num_exchanges :: nat
  w_user_msg :: "nat \<Rightarrow> string"
  w_agent_msg :: "nat \<Rightarrow> string"
  w_defective_user_message :: string
  w_defective_agent_response :: string
  w_defective_description :: string
  w_agent_interpretation :: string
  w_expected_behavior :: string
  w_analyze :: bool

text \<open>\<^verbatim>\<open>st.selectbox\<close> returns the option at the chosen index; Streamlit keeps the
  index within the options, and the model takes the last option for an index beyond
  them.\<close>

definition selectbox :: "'a list \<Rightarrow> nat \<Rightarrow> 'a" where
  "selectbox options k = options ! min k (length options - 1)"

text \<open>One round of the loop over \<^verbatim>\<open>range(num_exchanges)\<close>: a text is appended only
  when it is true as a condition, that is, not empty.\<close>

definition add_exchange :: "form \<Rightarrow> nat \<Rightarrow> message list \<Rightarrow> message list" where
  "add_exchange f k h =
     (let h1 = (if w_user_msg f k \<noteq> []
                then h @ [\<lparr>role = ''user'', content = w_user_msg f k\<rparr>] else h)
      in if w_agent_msg f k \<noteq> []
         then h1 @ [\<lparr>role = ''assistant'', content = w_agent_msg f k\<rparr>] else h1)"

definition history_of :: "form \<Rightarrow> message list" where
  "history_of f = fold (add_exchange f) [0 ..< w_num_exchanges f] []"

text \<open>The argument of \<^verbatim>\<open>all\<close> in the check of the required fields.\<close>

definition required_fields :: "form \<Rightarrow> string list" where
  "required_fields f =
     [w_system_prompt f, w_defective_user_message f, w_defective_agent_response f,
      w_defective_description f, w_agent_interpretation f, w_expected_behavior f,
      w_behavioral_guidelines f]"

text \<open>The text of the warning. Its first two code points, U+26A0 and U+FE0F, are
  beyond 255 and are written as their six UTF-8 bytes.\<close>

definition warning_text :: string where
  "warning_text =
     [CHR 0xE2, CHR 0x9A, CHR 0xA0, CHR 0xEF, CHR 0xB8, CHR 0x8F] @
     '' Please fill in all required fields.''"

definition inputs_of :: "form \<Rightarrow> (string \<times> string) list \<Rightarrow> inputs" where
  "inputs_of f models =
     \<lparr>bot_type = selectbox [''Text Bot'', ''Voice Bot''] (w_bot_type f),
      system_prompt = w_system_prompt f,
      conversation_history = history_of f,
      defective_user_message = w_defective_user_message f,
      defective_agent_response = w_defective_agent_response f,
      defective_description = w_defective_description f,
      agent_interpretation = w_agent_interpretation f,
      expected_behavior = w_expected_behavior f,
      behavioral_guidelines = w_behavioral_guidelines f,
      provider = selectbox (map fst model_providers) (w_provider f),
      model = selectbox (map fst models) (w_model f)\<rparr>"

text \<open>One run of the script: \<open>Inl\<close> is an exception that nothing catches (the lookup
  \<^verbatim>\<open>model_providers[provider]\<close> is the only place that could raise one), \<open>Inr\<close> the
  events of the run.\<close>

definition main :: "env \<Rightarrow> (string \<rightharpoonup> string) \<Rightarrow> string option \<Rightarrow> form \<Rightarrow> string + event list" where
  "main e secrets prior f =
     (case init secrets prior of (self, evs0) \<Rightarrow>
        (case map_of model_providers (selectbox (map fst model_providers) (w_provider f)) of
           None \<Rightarrow> Inl ''KeyError''
         | Some models \<Rightarrow>
             if w_analyze f then
               if \<not> list_all (\<lambda>s. s \<noteq> []) (required_fields f)
               then Inr (evs0 @ [StWarning warning_text])
               else (case analyze_prompt e self (inputs_of f models) of
                       (analysis, evs) \<Rightarrow> Inr (evs0 @ evs @ [StJson analysis]))
             else Inr evs0))"

subsection \<open>Observations\<close>

text \<open>The calls into a provider library among the events of a run.\<close>

fun is_anthropic_call :: "event \<Rightarrow> bool" where
  "is_anthropic_call (Anthropic_create k r) = True"
| "is_anthropic_call ev = False"

fun is_openai_call :: "event \<Rightarrow> bool" where
  "is_openai_call (OpenAI_create k r) = True"
| "is_openai_call ev = False"

definition provider_calls :: "event list \<Rightarrow> event list" where
  "provider_calls evs = filter (\<lambda>ev. is_anthropic_call ev \<or> is_openai_call ev) evs"

text \<open>The number of places of a text at which a given text starts; for a text of one
  character this is \<^verbatim>\<open>str.count\<close>.\<close>

primrec occurrences :: "string \<Rightarrow> string \<Rightarrow> nat" where
  "occurrences sub [] = (if sub = [] then 1 else 0)"
| "occurrences sub (c # cs) = (if prefix sub (c # cs) then 1 else 0) + occurrences sub cs"

text \<open>The provider calls of a run that put a request on the network. Whether a
  call into a library does so is the library's matter: \<open>on_wire\<close> says of which calls
  it is the case.\<close>

definition network_calls :: "(event \<Rightarrow> bool) \<Rightarrow> event list \<Rightarrow> event list" where
  "network_calls on_wire evs = filter on_wire (provider_calls evs)"


subsection \<open>The grammar of JSON\<close>

text \<open>A recognizer for the JSON texts of RFC 8259: white space, a value, white
  space, where a value is an object, an array, a string, a number or one of
  \<^verbatim>\<open>true\<close>, \<^verbatim>\<open>false\<close>, \<^verbatim>\<open>null\<close>. This is the meaning of ``valid JSON''; it is not what
  \<^verbatim>\<open>json.loads\<close> accepts, which also takes \<^verbatim>\<open>NaN\<close>, \<^verbatim>\<open>Infinity\<close> and \<^verbatim>\<open>-Infinity\<close>. Each
  function returns the text that follows what it has read, or \<open>None\<close>.\<close>

definition is_ws :: "char \<Rightarrow> bool" where
  "is_ws c \<longleftrightarrow> c = CHR 0x20 \<or> c = CHR 0x09 \<or> c = CHR 0x0A \<or> c = CHR 0x0D"

definition is_digit :: "char \<Rightarrow> bool" where
  "is_digit c \<longleftrightarrow> c \<in> set ''0123456789''"

definition is_hexdigit :: "char \<Rightarrow> bool" where
  "is_hexdigit c \<longleftrightarrow> c \<in> set ''0123456789abcdefABCDEF''"

text \<open>The rest of a string after its opening quote: unescaped characters from
  U+0020 on, the eight short escapes and \<^verbatim>\<open>\u\<close> with four hexadecimal digits.\<close>

fun string_rest :: "string \<Rightarrow> string option" where
  "string_rest [] = None"
| "string_rest (c # cs) =
     (if c = CHR 0x22 then Some cs
      else if c = CHR 0x5C then
        (case cs of
           [] \<Rightarrow> None
         | e # es \<Rightarrow>
             if e \<in> set [CHR 0x22, CHR 0x5C, CHR ''/'', CHR ''b'', CHR ''f'', CHR ''n'',
                          CHR ''r'', CHR ''t'']
             then string_rest es
             else if e = CHR ''u'' then
               (case es of
                  h1 # h2 # h3 # h4 # es' \<Rightarrow>
                    if is_hexdigit h1 \<and> is_hexdigit h2 \<and> is_hexdigit h3 \<and> is_hexdigit h4
                    then string_rest es' else None
                | _ \<Rightarrow> None)
             else None)
      else if (of_char c :: nat) < 0x20 then None
      else string_rest cs)"

text \<open>A number: an optional minus, an integer part without leading zeros, an
  optional fraction, an optional exponent.\<close>

definition int_rest :: "string \<Rightarrow> string option" where
  "int_rest s =
     (case s of
        [] \<Rightarrow> None
      | d # ds \<Rightarrow>
          if d = CHR ''0'' then Some ds
          else if is_digit d then Some (dropWhile is_digit ds)
          else None)"

definition frac_rest :: "string \<Rightarrow> string option" where
  "frac_rest s =
     (case s of
        [] \<Rightarrow> Some s
      | p # ds \<Rightarrow>
          if p = CHR ''.'' then
            (case ds of
               [] \<Rightarrow> None
             | d # ds' \<Rightarrow> if is_digit d then Some (dropWhile is_digit ds') else None)
          else Some s)"

definition exp_rest :: "string \<Rightarrow> string option" where
  "exp_rest s =
     (case s of
        [] \<Rightarrow> Some s
      | x # r \<Rightarrow>
          if x = CHR ''e'' \<or> x = CHR ''E'' then
            (case (case r of
                     [] \<Rightarrow> r
                   | g # r' \<Rightarrow> if g = CHR ''+'' \<or> g = CHR ''-'' then r' else r) of
               [] \<Rightarrow> None
             | d # ds \<Rightarrow> if is_digit d then Some (dropWhile is_digit ds) else None)
          else Some s)"

definition number_rest :: "string \<Rightarrow> string option" where
  "number_rest s =
     (case int_rest (case s of [] \<Rightarrow> s | m # r \<Rightarrow> if m = CHR ''-'' then r else s) of
        None \<Rightarrow> None
      | Some r1 \<Rightarrow> (case frac_rest r1 of None \<Rightarrow> None | Some r2 \<Rightarrow> exp_rest r2))"

definition scalar_rest :: "string \<Rightarrow> string option" where
  "scalar_rest s =
     (if prefix ''true'' s then Some (drop 4 s)
      else if prefix ''false'' s then Some (drop 5 s)
      else if prefix ''null'' s then Some (drop 4 s)
      else number_rest s)"

text \<open>Values, the elements of an array after its bracket and the members of an
  object after its brace. The first argument bounds the depth of the calls; twice
  the length of the text is enough, since every second call reads a character.\<close>

fun value_rest :: "nat \<Rightarrow> string \<Rightarrow> string option"
  and elements_rest :: "nat \<Rightarrow> string \<Rightarrow> string option"
  and members_rest :: "nat \<Rightarrow> string \<Rightarrow> string option" where
  "value_rest 0 s = None"
| "value_rest (Suc n) s =
     (case dropWhile is_ws s of
        [] \<Rightarrow> None
      | c # r \<Rightarrow>
          if c = CHR 0x22 then string_rest r
          else if c = CHR ''['' then
            (case dropWhile is_ws r of
               [] \<Rightarrow> None
             | d # r' \<Rightarrow> if d = CHR '']'' then Some r' else elements_rest n r)
          else if c = CHR ''{'' then
            (case dropWhile is_ws r of
               [] \<Rightarrow> None
             | d # r' \<Rightarrow> if d = CHR ''}'' then Some r' else members_rest n r)
          else scalar_rest (c # r))"
| "elements_rest 0 s = None"
| "elements_rest (Suc n) s =
     (case value_rest n s of
        None \<Rightarrow> None
      | Some r \<Rightarrow>
          (case dropWhile is_ws r of
             [] \<Rightarrow> None
           | d # r' \<Rightarrow>
               if d = CHR '','' then elements_rest n r'
               else if d = CHR '']'' then Some r' else None))"
| "members_rest 0 s = None"
| "members_rest (Suc n) s =
     (case dropWhile is_ws s of
        [] \<Rightarrow> None
      | q # r \<Rightarrow>
          if q = CHR 0x22 then
            (case string_rest r of
               None \<Rightarrow> None
             | Some r1 \<Rightarrow>
                 (case dropWhile is_ws r1 of
                    [] \<Rightarrow> None
                  | c # r2 \<Rightarrow>
                      if c = CHR '':'' then
                        (case value_rest n r2 of
                           None \<Rightarrow> None
                         | Some r3 \<Rightarrow>
                             (case dropWhile is_ws r3 of
                                [] \<Rightarrow> None
                              | d # r4 \<Rightarrow>
                                  if d = CHR '','' then members_rest n r4
                                  else if d = CHR ''}'' then Some r4 else None))
                      else None))
          else None)"

definition valid_json :: "string \<Rightarrow> bool" where
  "valid_json s =
     (case value_rest (2 * length s + 2) s of
        None \<Rightarrow> False
      | Some r \<Rightarrow> dropWhile is_ws r = [])"

subsection \<open>Concrete runs\<close>

text \<open>The request of the end-to-end scenario of the specification: provider
  Anthropic, the Haiku model, every text \<^verbatim>\<open>"x"\<close>, no conversation history.\<close>

definition scenario :: inputs where
  "scenario =
     \<lparr>bot_type = ''x'', system_prompt = ''x'', conversation_history = [],
      defective_user_message = ''x'', defective_agent_response = ''x'',
      defective_description = ''x'', agent_interpretation = ''x'',
      expected_behavior = ''x'', behavioral_guidelines = ''x'',
      provider = ''Anthropic'', model = ''claude-3-haiku-20240307''\<rparr>"

definition scenario_reply :: string where
  "scenario_reply =
     ''{\"error_analysis\":{\"system_prompt\":\"a\",\"guidelines\":\"b\"},'' @
     ''\"suggestions\":{\"system_prompt\":\"c\",\"guidelines\":\"d\"},'' @
     ''\"interpretation_change\":\"e\"}''"

definition scenario_result :: json where
  "scenario_result =
     JObject
       [(''error_analysis'',
           JObject [(''system_prompt'', JString ''a''), (''guidelines'', JString ''b'')]),
        (''suggestions'',
           JObject [(''system_prompt'', JString ''c''), (''guidelines'', JString ''d'')]),
        (''interpretation_change'', JString ''e'')]"

text \<open>Libraries for a test run: both providers answer with one item holding
  \<open>reply\<close>; \<^verbatim>\<open>json.loads\<close> decodes the scenario's reply and rejects every other text
  with the message Python gives for a text that starts with no JSON value.\<close>

definition mock_env :: "string \<Rightarrow> env" where
  "mock_env reply =
     \<lparr>messages_create = (\<lambda>k r. Inr [reply]),
      chat_completion_create = (\<lambda>k r. Inr [reply]),
      json_loads = (\<lambda>t. if t = scenario_reply then Inr scenario_result
                          else Inl ''Expecting value: line 1 column 1 (char 0)'')\<rparr>"

text \<open>The same request sent to the other provider, and one whose model no provider
  lists.\<close>

definition openai_scenario :: inputs where
  "openai_scenario = scenario\<lparr>provider := ''OpenAI'', model := ''gpt-4o''\<rparr>"

definition unlisted_scenario :: inputs where
  "unlisted_scenario = scenario\<lparr>model := ''no-such-model''\<rparr>"

text \<open>Secrets with both keys, and with only the Anthropic key.\<close>

definition both_secrets :: "string \<rightharpoonup> string" where
  "both_secrets = [''ANTHROPIC_API_KEY'' \<mapsto> ''ka'', ''OPENAI_API_KEY'' \<mapsto> ''ko'']"

definition anthropic_only_secrets :: "string \<rightharpoonup> string" where
  "anthropic_only_secrets = [''ANTHROPIC_API_KEY'' \<mapsto> ''ka'']"

text \<open>A form with one exchange, nothing typed into the conversation history, every
  other text \<^verbatim>\<open>"x"\<close>, the second provider chosen and the button pressed; and the same
  form with the system prompt left empty.\<close>

definition filled_form :: form where
  "filled_form =
     \<lparr>w_bot_type = 0, w_provider = 1, w_model = 0,
      w_system_prompt = ''x'', w_behavioral_guidelines = ''x'',
      w_num_exchanges = 1, w_user_msg = (\<lambda>k. []), w_agent_msg = (\<lambda>k. []),
      w_defective_user_message = ''x'', w_defective_agent_response = ''x'',
      w_defective_description = ''x'', w_agent_interpretation = ''x'',
      w_expected_behavior = ''x'', w_analyze = True\<rparr>"

definition unfilled_form :: form where
  "unfilled_form = filled_form\<lparr>w_system_prompt := []\<rparr>"

text \<open>A form with two exchanges: only the user's text in the first, only the
  agent's in the second.\<close>

definition chat_form :: form where
  "chat_form =
     filled_form
       \<lparr>w_num_exchanges := 2,
        w_user_msg := (\<lambda>k. if k = 0 then ''hi'' else []),
        w_agent_msg := (\<lambda>k. if k = 1 then ''yo'' else [])\<rparr>"

text \<open>A request as the form builds it: the bot type \<^verbatim>\<open>Text Bot\<close>, the provider
  \<^verbatim>\<open>OpenAI\<close> with its model \<^verbatim>\<open>gpt-4o\<close>, every other text \<^verbatim>\<open>"x"\<close>; and the scenario's
  request with every text empty, which leaves the fixed text of the template.\<close>

definition form_request :: inputs where
  "form_request = scenario\<lparr>bot_type := ''Text Bot'', provider := ''OpenAI'', model := ''gpt-4o''\<rparr>"

definition blank_scenario :: inputs where
  "blank_scenario =
     scenario
       \<lparr>bot_type := [], system_prompt := [], defective_user_message := [],
        defective_agent_response := [], defective_description := [],
        agent_interpretation := [], expected_behavior := [], behavioral_guidelines := []\<rparr>"

text \<open>The scenario's request with one message in the history, whose content has two
  double quotes.\<close>

definition quoted_request :: inputs where
  "quoted_request =
     scenario\<lparr>conversation_history := [\<lparr>role = ''user'', content = ''say \"hi\"''\<rparr>]\<rparr>"

text \<open>Libraries in which the OpenAI call refuses a request while no key is set, as
  the library does in its key lookup, before it sends anything; with a key it
  answers like \<open>mock_env\<close>.\<close>

definition strict_env :: env where
  "strict_env =
     \<lparr>messages_create = (\<lambda>k r. Inr [scenario_reply]),
      chat_completion_create =
        (\<lambda>k r. case k of None \<Rightarrow> Inl ''No API key provided.''
                 | Some key \<Rightarrow> Inr [scenario_reply]),
      json_loads = json_loads (mock_env scenario_reply)\<rparr>"

text \<open>Libraries in which both providers answer \<^verbatim>\<open>NaN\<close>, and \<^verbatim>\<open>json.loads\<close> does what
  Python's does with this text: it returns the float that is not a number, whose
  64 bits are \<^verbatim>\<open>7ff8000000000000\<close>.\<close>

definition lenient_env :: env where
  "lenient_env =
     \<lparr>messages_create = (\<lambda>k r. Inr [''NaN'']),
      chat_completion_create = (\<lambda>k r. Inr [''NaN'']),
      json_loads = (\<lambda>t. if t = ''NaN'' then Inr (JFloat 0x7FF8000000000000)
                          else Inl ''Expecting value: line 1 column 1 (char 0)'')\<rparr>"

text \<open>The form with the system prompt left empty and the button not pressed; and
  the filled form with the first provider chosen.\<close>

definition idle_form :: form where
  "idle_form = unfilled_form\<lparr>w_analyze := False\<rparr>"

definition anthropic_form :: form where
  "anthropic_form = filled_form\<lparr>w_provider := 0\<rparr>"

section \<open>Properties\<close>

subsection \<open>The branches of \<^verbatim>\<open>analyze_prompt\<close>\<close>

lemma try_body_no_client:
  "provider i = ''Anthropic'' \<Longrightarrow> anthropic_client self = None \<Longrightarrow>
   try_body e self i = ([], Inl no_client_message)"
  by (simp add: try_body_def)

lemma try_body_anthropic:
  "provider i = ''Anthropic'' \<Longrightarrow> anthropic_client self = Some k \<Longrightarrow>
   try_body e self i =
     ([Anthropic_create k (anthropic_request_of i)],
      (case messages_create e k (anthropic_request_of i) of
         Inl err \<Rightarrow> Inl err | Inr texts \<Rightarrow> decode_first e texts))"
  by (simp add: try_body_def)

lemma try_body_openai:
  "provider i \<noteq> ''Anthropic'' \<Longrightarrow>
   try_body e self i =
     ([OpenAI_create (openai_api_key self) (openai_request_of i)],
      (case chat_completion_create e (openai_api_key self) (openai_request_of i) of
         Inl err \<Rightarrow> Inl err | Inr texts \<Rightarrow> decode_first e texts))"
  by (simp add: try_body_def)

lemma analyze_prompt_cases:
  "try_body e self i = (evs, r) \<Longrightarrow>
   analyze_prompt e self i =
     (case r of Inr result \<Rightarrow> (result, evs)
      | Inl err \<Rightarrow> (JObject [], evs @ [StError (''Analysis Error: '' @ err)]))"
  by (simp add: analyze_prompt_def split: sum.splits)

lemma provider_calls_append [simp]:
  "provider_calls (xs @ ys) = provider_calls xs @ provider_calls ys"
  by (simp add: provider_calls_def)

lemma provider_calls_simps [simp]:
  "provider_calls [] = []"
  "provider_calls (StError s # evs) = provider_calls evs"
  "provider_calls (StWarning s # evs) = provider_calls evs"
  "provider_calls (StJson j # evs) = provider_calls evs"
  "provider_calls (Anthropic_create k r # evs) = Anthropic_create k r # provider_calls evs"
  "provider_calls (OpenAI_create ko ro # evs) = OpenAI_create ko ro # provider_calls evs"
  by (simp_all add: provider_calls_def)

lemma analyze_no_client:
  "provider i = ''Anthropic'' \<Longrightarrow> anthropic_client self = None \<Longrightarrow>
   analyze_prompt e self i =
     (JObject [], [StError (''Analysis Error: '' @ no_client_message)])"
  by (simp add: analyze_prompt_cases [OF try_body_no_client])

lemma calls_anthropic:
  "provider i = ''Anthropic'' \<Longrightarrow> anthropic_client self = Some k \<Longrightarrow>
   provider_calls (snd (analyze_prompt e self i)) =
     [Anthropic_create k (anthropic_request_of i)]"
  by (simp add: analyze_prompt_cases [OF try_body_anthropic] split: sum.splits)

lemma calls_openai:
  "provider i \<noteq> ''Anthropic'' \<Longrightarrow>
   provider_calls (snd (analyze_prompt e self i)) =
     [OpenAI_create (openai_api_key self) (openai_request_of i)]"
  by (simp add: analyze_prompt_cases [OF try_body_openai] split: sum.splits)

lemma no_openai_in_calls:
  "list_all (\<lambda>ev. \<not> is_openai_call ev) evs \<longleftrightarrow>
   list_all (\<lambda>ev. \<not> is_openai_call ev) (provider_calls evs)"
  by (induction evs) (auto simp: provider_calls_def)

lemma no_anthropic_in_calls:
  "list_all (\<lambda>ev. \<not> is_anthropic_call ev) evs \<longleftrightarrow>
   list_all (\<lambda>ev. \<not> is_anthropic_call ev) (provider_calls evs)"
  by (induction evs) (auto simp: provider_calls_def)

lemma provider_scenario [simp]:
  "provider scenario = ''Anthropic''" "provider openai_scenario = ''OpenAI''"
  "provider unlisted_scenario = ''Anthropic''"
  by (simp_all add: scenario_def openai_scenario_def unlisted_scenario_def)

lemma init_both_secrets [simp]:
  "init both_secrets prior =
     (\<lparr>anthropic_client = Some ''ka'', openai_api_key = Some ''ko''\<rparr>, [])"
  by (simp add: init_def both_secrets_def)

lemma init_anthropic_only [simp]:
  "init anthropic_only_secrets prior =
     (\<lparr>anthropic_client = Some ''ka'', openai_api_key = prior\<rparr>,
      [StError ''Missing API keys in Streamlit secrets.''])"
  by (simp add: init_def anthropic_only_secrets_def)

subsection \<open>Routing\<close>

text \<open>
  Claim C3. A request whose provider is \<^verbatim>\<open>"Anthropic"\<close> never reaches the OpenAI
  call, and when the client exists the only provider call of the run is the
  Anthropic one; a request whose provider is \<^verbatim>\<open>"OpenAI"\<close> never reaches the
  Anthropic call, and the only provider call of the run is the OpenAI one. This
  holds for every request, every state of the debugger and every behaviour of the
  libraries.
\<close>

theorem routing:
  "(provider i = ''Anthropic'' \<longrightarrow>
      list_all (\<lambda>ev. \<not> is_openai_call ev) (snd (analyze_prompt e self i)) \<and>
      (\<forall>k. anthropic_client self = Some k \<longrightarrow>
         provider_calls (snd (analyze_prompt e self i)) =
           [Anthropic_create k (anthropic_request_of i)])) \<and>
   (provider i = ''OpenAI'' \<longrightarrow>
      list_all (\<lambda>ev. \<not> is_anthropic_call ev) (snd (analyze_prompt e self i)) \<and>
      provider_calls (snd (analyze_prompt e self i)) =
        [OpenAI_create (openai_api_key self) (openai_request_of i)])"
proof (intro conjI impI allI)
  assume a: "provider i = ''Anthropic''"
  show "list_all (\<lambda>ev. \<not> is_openai_call ev) (snd (analyze_prompt e self i))"
  proof (cases "anthropic_client self")
    case None
    with a show ?thesis by (simp add: analyze_no_client)
  next
    case (Some k)
    with a show ?thesis
      by (subst no_openai_in_calls) (simp add: calls_anthropic)
  qed
next
  fix k assume "provider i = ''Anthropic''" "anthropic_client self = Some k"
  then show "provider_calls (snd (analyze_prompt e self i)) =
           [Anthropic_create k (anthropic_request_of i)]"
    by (rule calls_anthropic)
next
  assume o: "provider i = ''OpenAI''"
  then have n: "provider i \<noteq> ''Anthropic''" by simp
  show "list_all (\<lambda>ev. \<not> is_anthropic_call ev) (snd (analyze_prompt e self i))"
    by (subst no_anthropic_in_calls) (simp add: calls_openai [OF n])
  show "provider_calls (snd (analyze_prompt e self i)) =
        [OpenAI_create (openai_api_key self) (openai_request_of i)]"
    by (rule calls_openai [OF n])
qed

theorem routing_witness:
  "provider scenario = ''Anthropic'' \<and> provider openai_scenario = ''OpenAI'' \<and>
   anthropic_client (fst (init both_secrets None)) = Some ''ka'' \<and>
   list_all (\<lambda>ev. \<not> is_openai_call ev)
     (snd (analyze_prompt (mock_env scenario_reply) (fst (init both_secrets None)) scenario)) \<and>
   provider_calls
     (snd (analyze_prompt (mock_env scenario_reply) (fst (init both_secrets None)) scenario)) =
     [Anthropic_create ''ka'' (anthropic_request_of scenario)] \<and>
   list_all (\<lambda>ev. \<not> is_anthropic_call ev)
     (snd (analyze_prompt (mock_env scenario_reply) (fst (init both_secrets None))
        openai_scenario)) \<and>
   provider_calls
     (snd (analyze_prompt (mock_env scenario_reply) (fst (init both_secrets None))
        openai_scenario)) =
     [OpenAI_create (Some ''ko'') (openai_request_of openai_scenario)]"
  using routing [of scenario "mock_env scenario_reply" "fst (init both_secrets None)"]
    routing [of openai_scenario "mock_env scenario_reply" "fst (init both_secrets None)"]
  by simp

subsection \<open>What is sent\<close>

text \<open>
  Claim C8. Whenever a request is sent: the Anthropic call carries the request's
  model, a bound of 4000 output tokens and exactly one message, of role
  \<^verbatim>\<open>user\<close>, whose content is the whole rendered instruction; the OpenAI call carries
  the request's model, exactly two messages (the system message
  \<^verbatim>\<open>You are an expert AI debugger.\<close>, then the rendered instruction as user content),
  a bound of 4000 output tokens and the temperature 0.2.
\<close>

theorem request_contents:
  "(provider i = ''Anthropic'' \<and> anthropic_client self = Some k \<longrightarrow>
      provider_calls (snd (analyze_prompt e self i)) =
        [Anthropic_create k
           \<lparr>a_model = model i, a_max_tokens = 4000,
            a_messages = [\<lparr>role = ''user'', content = analysis_prompt i\<rparr>]\<rparr>]) \<and>
   (provider i = ''OpenAI'' \<longrightarrow>
      provider_calls (snd (analyze_prompt e self i)) =
        [OpenAI_create (openai_api_key self)
           \<lparr>o_model = model i,
            o_messages = [\<lparr>role = ''system'', content = ''You are an expert AI debugger.''\<rparr>,
                          \<lparr>role = ''user'', content = analysis_prompt i\<rparr>],
            o_max_tokens = 4000, o_temperature = 0.2\<rparr>])"
proof (intro conjI impI)
  assume "provider i = ''Anthropic'' \<and> anthropic_client self = Some k"
  then show "provider_calls (snd (analyze_prompt e self i)) =
        [Anthropic_create k
           \<lparr>a_model = model i, a_max_tokens = 4000,
            a_messages = [\<lparr>role = ''user'', content = analysis_prompt i\<rparr>]\<rparr>]"
    using calls_anthropic [of i self k e] by (simp add: anthropic_request_of_def)
next
  assume "provider i = ''OpenAI''"
  then have "provider i \<noteq> ''Anthropic''" by simp
  then show "provider_calls (snd (analyze_prompt e self i)) =
        [OpenAI_create (openai_api_key self)
           \<lparr>o_model = model i,
            o_messages = [\<lparr>role = ''system'', content = ''You are an expert AI debugger.''\<rparr>,
                          \<lparr>role = ''user'', content = analysis_prompt i\<rparr>],
            o_max_tokens = 4000, o_temperature = 0.2\<rparr>]"
    using calls_openai [of i e self] by (simp add: openai_request_of_def)
qed

theorem request_contents_witness:
  "provider scenario = ''Anthropic'' \<and> provider openai_scenario = ''OpenAI'' \<and>
   anthropic_client (fst (init both_secrets None)) = Some ''ka'' \<and>
   provider_calls
     (snd (analyze_prompt (mock_env scenario_reply) (fst (init both_secrets None)) scenario)) =
     [Anthropic_create ''ka''
        \<lparr>a_model = ''claude-3-haiku-20240307'', a_max_tokens = 4000,
         a_messages = [\<lparr>role = ''user'', content = analysis_prompt scenario\<rparr>]\<rparr>] \<and>
   provider_calls
     (snd (analyze_prompt (mock_env scenario_reply) (fst (init both_secrets None))
        openai_scenario)) =
     [OpenAI_create (Some ''ko'')
        \<lparr>o_model = ''gpt-4o'',
         o_messages = [\<lparr>role = ''system'', content = ''You are an expert AI debugger.''\<rparr>,
                       \<lparr>role = ''user'', content = analysis_prompt openai_scenario\<rparr>],
         o_max_tokens = 4000, o_temperature = 0.2\<rparr>]"
proof -
  have m: "model scenario = ''claude-3-haiku-20240307''" "model openai_scenario = ''gpt-4o''"
    by (simp_all add: scenario_def openai_scenario_def)
  show ?thesis
    using request_contents [of scenario "fst (init both_secrets None)" "''ka''"
        "mock_env scenario_reply"]
      request_contents [of openai_scenario "fst (init both_secrets None)" "''ka''"
        "mock_env scenario_reply"] m
    by simp
qed

subsection \<open>Runs that succeed\<close>

lemma decode_first_Cons [simp]: "decode_first e (t # ts) = json_loads e t"
  by (simp add: decode_first_def first_item_def)

lemma decode_first_Nil [simp]: "decode_first e [] = Inl ''list index out of range''"
  by (simp add: decode_first_def first_item_def)

lemma analyze_anthropic_ok:
  "provider i = ''Anthropic'' \<Longrightarrow> anthropic_client self = Some k \<Longrightarrow>
   messages_create e k (anthropic_request_of i) = Inr (t # ts) \<Longrightarrow>
   json_loads e t = Inr v \<Longrightarrow>
   analyze_prompt e self i = (v, [Anthropic_create k (anthropic_request_of i)])"
  by (simp add: analyze_prompt_cases [OF try_body_anthropic])

lemma analyze_openai_ok:
  "provider i \<noteq> ''Anthropic'' \<Longrightarrow>
   chat_completion_create e (openai_api_key self) (openai_request_of i) = Inr (t # ts) \<Longrightarrow>
   json_loads e t = Inr v \<Longrightarrow>
   analyze_prompt e self i =
     (v, [OpenAI_create (openai_api_key self) (openai_request_of i)])"
  by (simp add: analyze_prompt_cases [OF try_body_openai])

subsection \<open>Replies that are not JSON\<close>

lemma mock_env_simps [simp]:
  "messages_create (mock_env reply) k r = Inr [reply]"
  "chat_completion_create (mock_env reply) ko ro = Inr [reply]"
  "json_loads (mock_env reply) scenario_reply = Inr scenario_result"
  "t \<noteq> scenario_reply \<Longrightarrow>
     json_loads (mock_env reply) t = Inl ''Expecting value: line 1 column 1 (char 0)''"
  by (simp_all add: mock_env_def)

lemma not_json_differs: "''not json'' \<noteq> scenario_reply"
  by (simp add: scenario_reply_def)

lemma nan_is_not_json: "\<not> valid_json ''NaN''"
  by code_simp

lemma lenient_env_simps [simp]:
  "messages_create lenient_env k r = Inr [''NaN'']"
  "chat_completion_create lenient_env ko ro = Inr [''NaN'']"
  "json_loads lenient_env ''NaN'' = Inr (JFloat 0x7FF8000000000000)"
  by (simp_all add: lenient_env_def)

text \<open>
  Claim C5 says that every reply that is not valid JSON gives the empty result
  and an error. The program leaves the decision to \<^verbatim>\<open>json.loads\<close>, which accepts
  some texts that are not JSON. The reply \<^verbatim>\<open>NaN\<close> is not a JSON text, and yet the run
  below returns what \<^verbatim>\<open>json.loads\<close> makes of it, a float, and reports no error.
\<close>

theorem nan_reply_counterexample:
  "\<not> valid_json ''NaN'' \<and>
   messages_create lenient_env ''ka'' (anthropic_request_of scenario) = Inr [''NaN''] \<and>
   analyze_prompt lenient_env (fst (init both_secrets None)) scenario =
     (JFloat 0x7FF8000000000000, [Anthropic_create ''ka'' (anthropic_request_of scenario)])"
proof -
  have "analyze_prompt lenient_env (fst (init both_secrets None)) scenario =
     (JFloat 0x7FF8000000000000, [Anthropic_create ''ka'' (anthropic_request_of scenario)])"
    by (rule analyze_anthropic_ok [where t = "''NaN''" and ts = "[]"]) simp_all
  with nan_is_not_json show ?thesis by simp
qed

text \<open>
  Claim C5, amended. Whenever the text of the first item of the provider's reply
  is one that \<^verbatim>\<open>json.loads\<close> rejects with the message \<open>msg\<close>, \<^verbatim>\<open>analyze_prompt\<close>
  returns: its value is the empty dictionary, and after the provider call the run
  shows one error, \<^verbatim>\<open>Analysis Error:\<close> followed by \<open>msg\<close>. This holds on both call
  paths. No exception leaves the function: the handler of the \<^verbatim>\<open>try\<close> turns it into
  this result. A text that is not JSON but that \<^verbatim>\<open>json.loads\<close> accepts is decoded and
  returned like any other.
\<close>

theorem invalid_reply:
  assumes "json_loads e t = Inl msg"
  shows "(provider i = ''Anthropic'' \<and> anthropic_client self = Some k \<and>
          messages_create e k (anthropic_request_of i) = Inr (t # ts) \<longrightarrow>
            analyze_prompt e self i =
              (JObject [],
               [Anthropic_create k (anthropic_request_of i),
                StError (''Analysis Error: '' @ msg)])) \<and>
         (provider i \<noteq> ''Anthropic'' \<and>
          chat_completion_create e (openai_api_key self) (openai_request_of i) = Inr (t # ts) \<longrightarrow>
            analyze_prompt e self i =
              (JObject [],
               [OpenAI_create (openai_api_key self) (openai_request_of i),
                StError (''Analysis Error: '' @ msg)]))"
  using assms
  by (auto simp: analyze_prompt_cases [OF try_body_anthropic]
      analyze_prompt_cases [OF try_body_openai])

theorem invalid_reply_witness:
  "json_loads (mock_env ''not json'') ''not json'' =
     Inl ''Expecting value: line 1 column 1 (char 0)'' \<and>
   analyze_prompt (mock_env ''not json'') (fst (init both_secrets None)) scenario =
     (JObject [],
      [Anthropic_create ''ka'' (anthropic_request_of scenario),
       StError ''Analysis Error: Expecting value: line 1 column 1 (char 0)'']) \<and>
   analyze_prompt (mock_env ''not json'') (fst (init both_secrets None)) openai_scenario =
     (JObject [],
      [OpenAI_create (Some ''ko'') (openai_request_of openai_scenario),
       StError ''Analysis Error: Expecting value: line 1 column 1 (char 0)''])"
proof -
  have j: "json_loads (mock_env ''not json'') ''not json'' =
     Inl ''Expecting value: line 1 column 1 (char 0)''"
    by (simp add: not_json_differs)
  show ?thesis
    using j
      invalid_reply [OF j, of scenario "fst (init both_secrets None)" "''ka''" "[]"]
      invalid_reply [OF j, of openai_scenario "fst (init both_secrets None)" "''ka''" "[]"]
    by simp
qed

subsection \<open>The conversation history\<close>

lemma add_exchange_nonempty:
  "\<forall>m \<in> set h. content m \<noteq> [] \<Longrightarrow> \<forall>m \<in> set (add_exchange f k h). content m \<noteq> []"
  by (simp add: add_exchange_def Let_def)

lemma fold_add_exchange_nonempty:
  "\<forall>m \<in> set h. content m \<noteq> [] \<Longrightarrow>
   \<forall>m \<in> set (fold (add_exchange f) ks h). content m \<noteq> []"
proof (induction ks arbitrary: h)
  case Nil
  then show ?case by simp
next
  case (Cons k ks)
  from Cons.prems have "\<forall>m \<in> set (add_exchange f k h). content m \<noteq> []"
    by (rule add_exchange_nonempty)
  then show ?case using Cons.IH by simp
qed

lemma fold_add_exchange_empty:
  "\<forall>k \<in> set ks. w_user_msg f k = [] \<and> w_agent_msg f k = [] \<Longrightarrow>
   fold (add_exchange f) ks h = h"
  by (induction ks arbitrary: h) (simp_all add: add_exchange_def)

text \<open>
  Claim C10. The conversation history that \<^verbatim>\<open>main\<close> assembles holds no message
  with empty content, whatever the widgets hold; and when every text of every
  exchange is empty, the history is the empty list, however many exchanges the
  number input asks for.
\<close>

theorem history_has_no_empty_message:
  "(\<forall>m \<in> set (history_of f). content m \<noteq> []) \<and>
   ((\<forall>k < w_num_exchanges f. w_user_msg f k = [] \<and> w_agent_msg f k = []) \<longrightarrow>
      history_of f = [])"
proof
  show "\<forall>m \<in> set (history_of f). content m \<noteq> []"
    unfolding history_of_def by (rule fold_add_exchange_nonempty) simp
  show "(\<forall>k < w_num_exchanges f. w_user_msg f k = [] \<and> w_agent_msg f k = []) \<longrightarrow>
      history_of f = []"
    unfolding history_of_def by (auto intro: fold_add_exchange_empty)
qed

lemma history_of_chat_form:
  "history_of chat_form =
     [\<lparr>role = ''user'', content = ''hi''\<rparr>, \<lparr>role = ''assistant'', content = ''yo''\<rparr>]"
  by (simp add: history_of_def chat_form_def filled_form_def add_exchange_def upt_rec)

theorem history_has_no_empty_message_witness:
  "w_num_exchanges filled_form = 1 \<and>
   w_user_msg filled_form 0 = [] \<and> w_agent_msg filled_form 0 = [] \<and>
   history_of filled_form = [] \<and>
   history_of chat_form =
     [\<lparr>role = ''user'', content = ''hi''\<rparr>, \<lparr>role = ''assistant'', content = ''yo''\<rparr>] \<and>
   map content (history_of chat_form) = [''hi'', ''yo'']"
  using history_has_no_empty_message [of filled_form]
    history_has_no_empty_message [of chat_form]
  by (simp add: filled_form_def history_of_chat_form)

subsection \<open>The script\<close>

lemma selectbox_providers:
  "selectbox (map fst model_providers) k = (if k = 0 then ''Anthropic'' else ''OpenAI'')"
  by (cases k) (simp_all add: selectbox_def model_providers_def)

lemma lookup_provider:
  "map_of model_providers (selectbox (map fst model_providers) k) =
     Some (snd (selectbox model_providers k))"
  by (cases k) (simp_all add: selectbox_def model_providers_def)

lemma main_unfold:
  "main e secrets prior f =
     (if w_analyze f then
        if \<not> list_all (\<lambda>s. s \<noteq> []) (required_fields f)
        then Inr (snd (init secrets prior) @ [StWarning warning_text])
        else Inr (snd (init secrets prior) @
                  snd (analyze_prompt e (fst (init secrets prior))
                         (inputs_of f (snd (selectbox model_providers (w_provider f))))) @
                  [StJson (fst (analyze_prompt e (fst (init secrets prior))
                         (inputs_of f (snd (selectbox model_providers (w_provider f))))))])
      else Inr (snd (init secrets prior)))"
  by (simp add: main_def lookup_provider split: prod.splits)

lemma provider_inputs_of [simp]:
  "provider (inputs_of f ms) = (if w_provider f = 0 then ''Anthropic'' else ''OpenAI'')"
  by (simp add: inputs_of_def selectbox_providers)

lemma filled_form_simps [simp]:
  "w_analyze filled_form" "w_provider filled_form = 1"
  "required_fields filled_form = [''x'', ''x'', ''x'', ''x'', ''x'', ''x'', ''x'']"
  "w_analyze unfilled_form" "w_provider unfilled_form = 1"
  "required_fields unfilled_form = [[], ''x'', ''x'', ''x'', ''x'', ''x'', ''x'']"
  by (simp_all add: filled_form_def unfilled_form_def required_fields_def)

lemma history_of_filled_form [simp]: "history_of filled_form = []"
  by (simp add: history_of_def filled_form_def add_exchange_def)

lemma analyze_filled_form:
  "analyze_prompt (mock_env scenario_reply)
     \<lparr>anthropic_client = Some ''ka'', openai_api_key = Some ''ko''\<rparr>
     (inputs_of filled_form ms) =
   (scenario_result,
    [OpenAI_create (Some ''ko'') (openai_request_of (inputs_of filled_form ms))])"
  using analyze_openai_ok [of "inputs_of filled_form ms" "mock_env scenario_reply"
      "\<lparr>anthropic_client = Some ''ka'', openai_api_key = Some ''ko''\<rparr>"
      scenario_reply "[]" scenario_result]
  by simp

lemma form_texts [simp]:
  "w_system_prompt filled_form = ''x''" "w_behavioral_guidelines filled_form = ''x''"
  "w_defective_user_message filled_form = ''x''" "w_defective_agent_response filled_form = ''x''"
  "w_defective_description filled_form = ''x''" "w_agent_interpretation filled_form = ''x''"
  "w_expected_behavior filled_form = ''x''"
  "w_system_prompt unfilled_form = []"
  by (simp_all add: filled_form_def unfilled_form_def)

lemma idle_form_simps [simp]:
  "\<not> w_analyze idle_form" "w_system_prompt idle_form = []"
  by (simp_all add: idle_form_def unfilled_form_def)

lemma anthropic_form_simps [simp]:
  "w_analyze anthropic_form" "w_provider anthropic_form = 0"
  "w_system_prompt anthropic_form = ''x''" "w_behavioral_guidelines anthropic_form = ''x''"
  "w_defective_user_message anthropic_form = ''x''"
  "w_defective_agent_response anthropic_form = ''x''"
  "w_defective_description anthropic_form = ''x''" "w_agent_interpretation anthropic_form = ''x''"
  "w_expected_behavior anthropic_form = ''x''"
  by (simp_all add: anthropic_form_def filled_form_def)

text \<open>
  Claim C6 says that in every state of the form with an empty required field the
  warning is shown. The check of the required fields sits under the button: in the
  run below the system prompt is empty, the button was not pressed, and the run
  shows nothing at all.
\<close>

theorem unpressed_form_counterexample:
  "w_system_prompt idle_form = [] \<and>
   main (mock_env scenario_reply) both_secrets None idle_form = Inr []"
  by (simp add: main_unfold)

text \<open>
  Claim C6, amended. When one of the seven required texts (system prompt,
  behavioural guidelines, defective user message, defective agent response, issue
  description, agent interpretation, expected behaviour) is empty,
  \<^verbatim>\<open>analyze_prompt\<close> is not called: a run of the script shows what the constructor
  reports and, if the button was pressed, the warning, and nothing else, so no
  provider call is made and no result is displayed. When all seven are filled and
  the button was pressed, \<^verbatim>\<open>analyze_prompt\<close> is called with the history the form
  holds, which may be empty, and its result is displayed.
\<close>

theorem required_fields_checked:
  "(w_system_prompt f = [] \<or> w_behavioral_guidelines f = [] \<or>
    w_defective_user_message f = [] \<or> w_defective_agent_response f = [] \<or>
    w_defective_description f = [] \<or> w_agent_interpretation f = [] \<or>
    w_expected_behavior f = [] \<longrightarrow>
      main e secrets prior f =
        Inr (snd (init secrets prior) @
             (if w_analyze f then [StWarning warning_text] else []))) \<and>
   (w_system_prompt f \<noteq> [] \<and> w_behavioral_guidelines f \<noteq> [] \<and>
    w_defective_user_message f \<noteq> [] \<and> w_defective_agent_response f \<noteq> [] \<and>
    w_defective_description f \<noteq> [] \<and> w_agent_interpretation f \<noteq> [] \<and>
    w_expected_behavior f \<noteq> [] \<and> w_analyze f \<longrightarrow>
      main e secrets prior f =
        Inr (snd (init secrets prior) @
             snd (analyze_prompt e (fst (init secrets prior))
                    (inputs_of f (snd (selectbox model_providers (w_provider f))))) @
             [StJson (fst (analyze_prompt e (fst (init secrets prior))
                    (inputs_of f (snd (selectbox model_providers (w_provider f))))))]) \<and>
      conversation_history (inputs_of f (snd (selectbox model_providers (w_provider f)))) =
        history_of f)"
  by (auto simp: main_unfold required_fields_def inputs_of_def)

theorem required_fields_checked_witness:
  "w_system_prompt unfilled_form = [] \<and> w_analyze unfilled_form \<and>
   main (mock_env scenario_reply) both_secrets None unfilled_form =
     Inr [StWarning warning_text] \<and>
   w_system_prompt idle_form = [] \<and>
   main (mock_env scenario_reply) both_secrets None idle_form = Inr [] \<and>
   w_system_prompt filled_form = ''x'' \<and> w_behavioral_guidelines filled_form = ''x'' \<and>
   w_defective_user_message filled_form = ''x'' \<and>
   w_defective_agent_response filled_form = ''x'' \<and>
   w_defective_description filled_form = ''x'' \<and> w_agent_interpretation filled_form = ''x'' \<and>
   w_expected_behavior filled_form = ''x'' \<and> w_analyze filled_form \<and>
   history_of filled_form = [] \<and>
   main (mock_env scenario_reply) both_secrets None filled_form =
     Inr [OpenAI_create (Some ''ko'')
            (openai_request_of
               (inputs_of filled_form
                  (snd (selectbox model_providers (w_provider filled_form))))),
          StJson scenario_result]"
  using required_fields_checked [of unfilled_form "mock_env scenario_reply" both_secrets None]
    required_fields_checked [of idle_form "mock_env scenario_reply" both_secrets None]
    required_fields_checked [of filled_form "mock_env scenario_reply" both_secrets None]
  by (simp add: analyze_filled_form)

subsection \<open>The instruction depends on nine fields only\<close>

text \<open>
  Claim C9. Rendering the instruction is deterministic: two requests that agree on
  the nine fields the template reads (in particular, the same request in two runs)
  give the same instruction, character for character, and the same messages in the
  request to either provider. The libraries, the credentials, the provider and the
  model have no influence on the text.
\<close>

theorem instruction_deterministic:
  assumes "bot_type i = bot_type j" "system_prompt i = system_prompt j"
    "conversation_history i = conversation_history j"
    "defective_user_message i = defective_user_message j"
    "defective_agent_response i = defective_agent_response j"
    "defective_description i = defective_description j"
    "agent_interpretation i = agent_interpretation j"
    "expected_behavior i = expected_behavior j"
    "behavioral_guidelines i = behavioral_guidelines j"
  shows "analysis_prompt i = analysis_prompt j \<and>
         a_messages (anthropic_request_of i) = a_messages (anthropic_request_of j) \<and>
         o_messages (openai_request_of i) = o_messages (openai_request_of j)"
  using assms by (simp add: analysis_prompt_def anthropic_request_of_def openai_request_of_def)

theorem instruction_deterministic_witness:
  "analysis_prompt scenario = analysis_prompt openai_scenario \<and>
   a_messages (anthropic_request_of scenario) =
     a_messages (anthropic_request_of openai_scenario) \<and>
   o_messages (openai_request_of scenario) = o_messages (openai_request_of openai_scenario)"
  using instruction_deterministic [of scenario openai_scenario]
  by (simp add: openai_scenario_def)

subsection \<open>The model is not checked\<close>

lemma selectbox_in_set: "xs \<noteq> [] \<Longrightarrow> selectbox xs k \<in> set xs"
  unfolding selectbox_def by (rule nth_mem) (cases xs, simp_all add: min_def)

lemma models_nonempty: "snd (selectbox model_providers k) \<noteq> []"
  by (cases k) (simp_all add: selectbox_def model_providers_def)

text \<open>
  Claim C1 says that a request whose model is not a key of the selected provider's
  mapping fails with a validation error before any provider call. The program has
  no such check. In the run below the model \<^verbatim>\<open>no-such-model\<close> is not a key of the
  mapping of \<^verbatim>\<open>Anthropic\<close>, and \<^verbatim>\<open>analyze_prompt\<close> sends the request to the Anthropic
  client and returns the decoded reply without reporting anything.
\<close>

theorem unlisted_model_counterexample:
  "map_of model_providers (provider unlisted_scenario) =
     Some (snd (selectbox model_providers 0)) \<and>
   model unlisted_scenario \<notin> fst ` set (snd (selectbox model_providers 0)) \<and>
   analyze_prompt (mock_env scenario_reply) (fst (init both_secrets None)) unlisted_scenario =
     (scenario_result, [Anthropic_create ''ka'' (anthropic_request_of unlisted_scenario)])"
proof -
  have "analyze_prompt (mock_env scenario_reply) (fst (init both_secrets None))
          unlisted_scenario =
     (scenario_result, [Anthropic_create ''ka'' (anthropic_request_of unlisted_scenario)])"
    by (rule analyze_anthropic_ok [where t = scenario_reply and ts = "[]"]) simp_all
  then show ?thesis
    by (simp add: model_providers_def selectbox_def unlisted_scenario_def scenario_def)
qed

text \<open>
  Claim C1, amended. \<^verbatim>\<open>analyze_prompt\<close> does not compare the model with the
  provider's mapping: whenever it calls a provider, the call carries the request's
  model unchanged, whether listed or not. What keeps unlisted models away is the
  form: the request that \<^verbatim>\<open>main\<close> builds has a provider that is a key of
  \<^verbatim>\<open>model_providers\<close> and a model that is a key of that provider's mapping, because
  both come from select boxes over those keys.
\<close>

theorem model_forwarded_unchecked:
  "(provider i = ''Anthropic'' \<and> anthropic_client self = Some k \<longrightarrow>
      provider_calls (snd (analyze_prompt e self i)) =
        [Anthropic_create k (anthropic_request_of i)] \<and>
      a_model (anthropic_request_of i) = model i) \<and>
   (provider i \<noteq> ''Anthropic'' \<longrightarrow>
      provider_calls (snd (analyze_prompt e self i)) =
        [OpenAI_create (openai_api_key self) (openai_request_of i)] \<and>
      o_model (openai_request_of i) = model i) \<and>
   (map_of model_providers
      (provider (inputs_of f (snd (selectbox model_providers (w_provider f))))) =
      Some (snd (selectbox model_providers (w_provider f))) \<and>
    model (inputs_of f (snd (selectbox model_providers (w_provider f))))
      \<in> fst ` set (snd (selectbox model_providers (w_provider f))))"
proof (intro conjI impI)
  show "model (inputs_of f (snd (selectbox model_providers (w_provider f))))
      \<in> fst ` set (snd (selectbox model_providers (w_provider f)))"
    using selectbox_in_set
        [of "map fst (snd (selectbox model_providers (w_provider f)))" "w_model f"]
      models_nonempty [of "w_provider f"]
    by (simp add: inputs_of_def)
  show "map_of model_providers
      (provider (inputs_of f (snd (selectbox model_providers (w_provider f))))) =
      Some (snd (selectbox model_providers (w_provider f)))"
    using lookup_provider [of "w_provider f"] by (simp add: inputs_of_def)
qed (simp_all add: calls_anthropic calls_openai anthropic_request_of_def openai_request_of_def)

theorem model_forwarded_unchecked_witness:
  "provider unlisted_scenario = ''Anthropic'' \<and>
   provider openai_scenario \<noteq> ''Anthropic'' \<and>
   provider_calls
     (snd (analyze_prompt (mock_env scenario_reply) (fst (init both_secrets None))
        unlisted_scenario)) =
     [Anthropic_create ''ka'' (anthropic_request_of unlisted_scenario)] \<and>
   a_model (anthropic_request_of unlisted_scenario) = ''no-such-model'' \<and>
   provider_calls
     (snd (analyze_prompt (mock_env scenario_reply) (fst (init both_secrets None))
        openai_scenario)) =
     [OpenAI_create (Some ''ko'') (openai_request_of openai_scenario)] \<and>
   o_model (openai_request_of openai_scenario) = ''gpt-4o'' \<and>
   model (inputs_of filled_form
            (snd (selectbox model_providers (w_provider filled_form)))) = ''gpt-4o''"
proof -
  have m: "model unlisted_scenario = ''no-such-model''" "model openai_scenario = ''gpt-4o''"
    by (simp_all add: unlisted_scenario_def openai_scenario_def scenario_def)
  have f: "model (inputs_of filled_form
                    (snd (selectbox model_providers (w_provider filled_form)))) = ''gpt-4o''"
    by (simp add: inputs_of_def selectbox_def model_providers_def filled_form_def)
  show ?thesis
    using model_forwarded_unchecked [of unlisted_scenario "fst (init both_secrets None)"
        "''ka''" "mock_env scenario_reply" filled_form]
      model_forwarded_unchecked [of openai_scenario "fst (init both_secrets None)"
        "''ka''" "mock_env scenario_reply" filled_form] m f
    by simp
qed

subsection \<open>Missing credentials\<close>





lemma network_calls_simps [simp]:
  "network_calls on_wire [] = []"
  "network_calls on_wire (StError s # evs) = network_calls on_wire evs"
  "network_calls on_wire (StJson j # evs) = network_calls on_wire evs"
  "network_calls on_wire (OpenAI_create ko ro # evs) =
     (if on_wire (OpenAI_create ko ro) then OpenAI_create ko ro # network_calls on_wire evs
      else network_calls on_wire evs)"
  by (simp_all add: network_calls_def)




lemma strict_env_refuses [simp]:
  "chat_completion_create strict_env None r = Inl ''No API key provided.''"
  by (simp add: strict_env_def)


subsection \<open>What the instruction contains\<close>

lemma sublist_skip: "sublist xs zs \<Longrightarrow> sublist xs (ys @ zs)"
  by (auto simp: sublist_def) (metis append.assoc)

text \<open>
  Claim C4 says that the instruction contains the content of every field of the
  request. The template has no place for the provider and the model. For the
  request below, which the form can build, neither \<^verbatim>\<open>gpt-4o\<close> nor \<^verbatim>\<open>OpenAI\<close> occurs
  in the instruction.
\<close>

theorem unembedded_model_counterexample:
  "model form_request = ''gpt-4o'' \<and> provider form_request = ''OpenAI'' \<and>
   \<not> sublist ''gpt-4o'' (analysis_prompt form_request) \<and>
   \<not> sublist ''OpenAI'' (analysis_prompt form_request)"
  by code_simp

subsection \<open>Reading a serialization back\<close>

text \<open>A fact about the model's texts, whose characters are the code points below
  256: there each character has its own escape and no escape is the beginning of
  another, so an encoded string can be read back in one way only, and so can a
  message and a whole list. No claim rests on it. It says nothing of texts with
  code points beyond 255, where \<^verbatim>\<open>json.dumps\<close> writes a character beyond U+FFFF and
  the pair of surrogates that stands for it alike.\<close>

lemma hexdigit_inj:
  assumes "a < 16" "b < 16" "hexdigit a = hexdigit b"
  shows "a = b"
proof -
  have d: "distinct ''0123456789abcdef''" by simp
  have l: "length ''0123456789abcdef'' = 16" by simp
  from assms have "''0123456789abcdef'' ! a = ''0123456789abcdef'' ! b"
    by (simp add: hexdigit_def)
  with d l assms(1,2) show ?thesis
    by (metis nth_eq_iff_index_eq)
qed

lemma hex_pair_inj:
  assumes "hexdigit (of_char c div 16) = hexdigit (of_char d div 16)"
    and "hexdigit (of_char c mod 16) = hexdigit (of_char d mod 16)"
  shows "c = d"
proof -
  have c: "(of_char c :: nat) < 256" and d: "(of_char d :: nat) < 256"
    by simp_all
  then have "(of_char c :: nat) div 16 < 16" "(of_char d :: nat) div 16 < 16" by arith+
  with assms(1) have q: "(of_char c :: nat) div 16 = of_char d div 16"
    by (rule_tac hexdigit_inj)
  have "(of_char c :: nat) mod 16 = of_char d mod 16"
    using assms(2) by (rule_tac hexdigit_inj) simp_all
  with q have "(of_char c :: nat) = of_char d"
    by (metis div_mult_mod_eq)
  then show ?thesis by simp
qed

lemma escape_char_not_quote: "escape_char c @ xs \<noteq> CHR 0x22 # ys"
  by (simp add: escape_char_def)

lemma escape_char_prefix_code:
  "escape_char c @ xs = escape_char d @ ys \<Longrightarrow> c = d \<and> xs = ys"
  by (auto simp: escape_char_def dest: hex_pair_inj split: if_splits)

lemma escaped_body_inj:
  "concat (map escape_char s) @ CHR 0x22 # xs = concat (map escape_char t) @ CHR 0x22 # ys
   \<Longrightarrow> s = t \<and> xs = ys"
proof (induction s arbitrary: t)
  case Nil
  then show ?case
    by (cases t) (use escape_char_not_quote in \<open>simp_all, metis\<close>)
next
  case (Cons c s)
  show ?case
  proof (cases t)
    case Nil
    with Cons.prems show ?thesis
      using escape_char_not_quote by simp
  next
    case (Cons d t')
    with Cons.prems have
      "escape_char c @ (concat (map escape_char s) @ CHR 0x22 # xs) =
       escape_char d @ (concat (map escape_char t') @ CHR 0x22 # ys)"
      by simp
    then have "c = d" and
      "concat (map escape_char s) @ CHR 0x22 # xs = concat (map escape_char t') @ CHR 0x22 # ys"
      by (auto dest: escape_char_prefix_code)
    with Cons.IH Cons show ?thesis by simp
  qed
qed

lemma encode_string_inj:
  "encode_string s @ xs = encode_string t @ ys \<Longrightarrow> s = t \<and> xs = ys"
  using escaped_body_inj [of s xs t ys] by (simp add: encode_string_def)

lemma dumps_message_inj:
  assumes "dumps_message m @ xs = dumps_message n @ ys"
  shows "m = n \<and> xs = ys"
proof -
  from assms have
    "encode_string (role m) @ ('',\<newline>    \"content\": '' @ encode_string (content m) @ ''\<newline>  }'' @ xs) =
     encode_string (role n) @ ('',\<newline>    \"content\": '' @ encode_string (content n) @ ''\<newline>  }'' @ ys)"
    by (simp add: dumps_message_def)
  then have r: "role m = role n" and
    "'',\<newline>    \"content\": '' @ encode_string (content m) @ ''\<newline>  }'' @ xs =
     '',\<newline>    \"content\": '' @ encode_string (content n) @ ''\<newline>  }'' @ ys"
    by (auto dest: encode_string_inj)
  then have "encode_string (content m) @ (''\<newline>  }'' @ xs) =
     encode_string (content n) @ (''\<newline>  }'' @ ys)"
    by simp
  then have "content m = content n" and "xs = ys"
    by (auto dest: encode_string_inj)
  with r show ?thesis by simp
qed

lemma join_dumps_inj:
  "ms \<noteq> [] \<Longrightarrow> ns \<noteq> [] \<Longrightarrow>
   join '',\<newline>'' (map dumps_message ms) @ ''\<newline>]'' =
   join '',\<newline>'' (map dumps_message ns) @ ''\<newline>]'' \<Longrightarrow> ms = ns"
proof (induction ms arbitrary: ns)
  case Nil
  then show ?case by simp
next
  case (Cons m ms)
  from Cons.prems(2) obtain n ns' where ns: "ns = n # ns'" by (cases ns) auto
  show ?case
  proof (cases ms)
    case Nil
    show ?thesis
    proof (cases ns')
      case Nil
      with Cons.prems ns \<open>ms = []\<close> have
        "dumps_message m @ ''\<newline>]'' = dumps_message n @ ''\<newline>]''"
        by simp
      then have "m = n" using dumps_message_inj by blast
      with Nil ns \<open>ms = []\<close> show ?thesis by simp
    next
      case (Cons n2 ns2)
      with Cons.prems ns \<open>ms = []\<close> have
        "dumps_message m @ ''\<newline>]'' =
         dumps_message n @ ('',\<newline>'' @ join '',\<newline>'' (map dumps_message (n2 # ns2)) @ ''\<newline>]'')"
        by simp
      then have "''\<newline>]'' = '',\<newline>'' @ join '',\<newline>'' (map dumps_message (n2 # ns2)) @ ''\<newline>]''"
        using dumps_message_inj by blast+
      then show ?thesis by simp
    qed
  next
    case (Cons m2 ms2)
    show ?thesis
    proof (cases ns')
      case Nil
      with Cons.prems ns \<open>ms = m2 # ms2\<close> have
        "dumps_message m @ ('',\<newline>'' @ join '',\<newline>'' (map dumps_message (m2 # ms2)) @ ''\<newline>]'') =
         dumps_message n @ ''\<newline>]''"
        by simp
      then have "'',\<newline>'' @ join '',\<newline>'' (map dumps_message (m2 # ms2)) @ ''\<newline>]'' = ''\<newline>]''"
        using dumps_message_inj by blast+
      then show ?thesis by simp
    next
      case c2: (Cons n2 ns2)
      with Cons.prems ns \<open>ms = m2 # ms2\<close> have
        "dumps_message m @ ('',\<newline>'' @ join '',\<newline>'' (map dumps_message ms) @ ''\<newline>]'') =
         dumps_message n @ ('',\<newline>'' @ join '',\<newline>'' (map dumps_message ns') @ ''\<newline>]'')"
        by simp
      then have "m = n" and
        "join '',\<newline>'' (map dumps_message ms) @ ''\<newline>]'' =
         join '',\<newline>'' (map dumps_message ns') @ ''\<newline>]''"
        using dumps_message_inj by blast+
      moreover have "ms \<noteq> []" "ns' \<noteq> []" using \<open>ms = m2 # ms2\<close> c2 by simp_all
      ultimately show ?thesis using Cons.IH [of ns'] ns by simp
    qed
  qed
qed

lemma json_dumps_inj: "json_dumps ms = json_dumps ns \<Longrightarrow> ms = ns"
proof (cases "ms = []"; cases "ns = []")
  assume "ms \<noteq> []" "ns \<noteq> []" "json_dumps ms = json_dumps ns"
  then show ?thesis by (auto simp: json_dumps_def dest: join_dumps_inj)
qed (auto simp: json_dumps_def)

lemma quoted_history_dumps:
  "json_dumps (conversation_history quoted_request) =
     ''[\<newline>  {\<newline>    \"role\": \"user\",\<newline>    \"content\": \"say '' @ [CHR 0x5C] @
     ''\"hi'' @ [CHR 0x5C] @ ''\"\"\<newline>  }\<newline>]''"
  by (simp add: quoted_request_def json_dumps_def dumps_message_def encode_string_def
      escape_char_def)

text \<open>
  Claim C4, amended. For every request, the instruction contains, as contiguous
  texts, the exact content of each of the eight text fields that the template
  reads (bot type, system prompt, defective user message, defective agent
  response, issue description, agent interpretation, expected behaviour,
  behavioural guidelines), unescaped and in full, and the serialization
  \<^verbatim>\<open>json.dumps(conversation_history, indent=2)\<close> of the conversation history. The
  provider and the model are not part of the instruction: it stays the same
  whatever they are.
\<close>

theorem instruction_embeds_fields:
  "sublist (bot_type i) (analysis_prompt i) \<and>
   sublist (system_prompt i) (analysis_prompt i) \<and>
   sublist (json_dumps (conversation_history i)) (analysis_prompt i) \<and>
   sublist (defective_user_message i) (analysis_prompt i) \<and>
   sublist (defective_agent_response i) (analysis_prompt i) \<and>
   sublist (defective_description i) (analysis_prompt i) \<and>
   sublist (agent_interpretation i) (analysis_prompt i) \<and>
   sublist (expected_behavior i) (analysis_prompt i) \<and>
   sublist (behavioral_guidelines i) (analysis_prompt i) \<and>
   analysis_prompt (i\<lparr>provider := p, model := m\<rparr>) = analysis_prompt i"
proof -
  have "analysis_prompt (i\<lparr>provider := p, model := m\<rparr>) = analysis_prompt i"
    by (simp add: analysis_prompt_def)
  moreover have
    "sublist (bot_type i) (analysis_prompt i) \<and>
     sublist (system_prompt i) (analysis_prompt i) \<and>
     sublist (json_dumps (conversation_history i)) (analysis_prompt i) \<and>
     sublist (defective_user_message i) (analysis_prompt i) \<and>
     sublist (defective_agent_response i) (analysis_prompt i) \<and>
     sublist (defective_description i) (analysis_prompt i) \<and>
     sublist (agent_interpretation i) (analysis_prompt i) \<and>
     sublist (expected_behavior i) (analysis_prompt i) \<and>
     sublist (behavioral_guidelines i) (analysis_prompt i)"
    unfolding analysis_prompt_def
    by (intro conjI; intro sublist_append_rightI sublist_skip)
  ultimately show ?thesis by simp
qed

theorem instruction_embeds_fields_witness:
  "conversation_history quoted_request = [\<lparr>role = ''user'', content = ''say \"hi\"''\<rparr>] \<and>
   sublist
     (''[\<newline>  {\<newline>    \"role\": \"user\",\<newline>    \"content\": \"say '' @ [CHR 0x5C] @
      ''\"hi'' @ [CHR 0x5C] @ ''\"\"\<newline>  }\<newline>]'')
     (analysis_prompt quoted_request) \<and>
   sublist ''x'' (analysis_prompt quoted_request) \<and>
   analysis_prompt (quoted_request\<lparr>provider := ''OpenAI'', model := ''gpt-4o''\<rparr>) =
     analysis_prompt quoted_request"
proof -
  note t = instruction_embeds_fields
    [where i = quoted_request and p = "''OpenAI''" and m = "''gpt-4o''"]
  have h: "conversation_history quoted_request = [\<lparr>role = ''user'', content = ''say \"hi\"''\<rparr>]"
    and b: "bot_type quoted_request = ''x''"
    by (simp_all add: quoted_request_def scenario_def)
  from t have "sublist (json_dumps (conversation_history quoted_request))
     (analysis_prompt quoted_request)"
    by blast
  then have s1: "sublist
     (''[\<newline>  {\<newline>    \"role\": \"user\",\<newline>    \"content\": \"say '' @ [CHR 0x5C] @
      ''\"hi'' @ [CHR 0x5C] @ ''\"\"\<newline>  }\<newline>]'')
     (analysis_prompt quoted_request)"
    by (simp only: quoted_history_dumps)
  from t have "sublist (bot_type quoted_request) (analysis_prompt quoted_request)"
    by blast
  then have s2: "sublist ''x'' (analysis_prompt quoted_request)"
    by (simp only: b)
  from t have s3: "analysis_prompt (quoted_request\<lparr>provider := ''OpenAI'', model := ''gpt-4o''\<rparr>) =
     analysis_prompt quoted_request"
    by blast
  from h s1 s2 s3 show ?thesis by blast
qed

subsection \<open>The end-to-end scenario\<close>

lemma scenario_counts:
  "occurrences ''x'' (analysis_prompt scenario) = 11"
  "occurrences ''x'' (analysis_prompt blank_scenario) = 3"
  "sublist json_shape (analysis_prompt scenario)"
  by code_simp+

text \<open>
  Claim C7 says that in the scenario (provider Anthropic, the Haiku model, every
  text \<^verbatim>\<open>"x"\<close>, no history) the instruction contains \<^verbatim>\<open>"x"\<close> exactly nine times. It
  does not.
\<close>

theorem x_count_counterexample:
  "occurrences ''x'' (analysis_prompt scenario) \<noteq> 9"
  using scenario_counts(1) by simp

text \<open>
  Claim C7, amended. In the scenario the instruction contains \<^verbatim>\<open>"x"\<close> exactly eleven
  times: once for each of the eight text fields, and three times in the fixed text
  of the template (in \<^verbatim>\<open>expert\<close>, \<^verbatim>\<open>Expected\<close> and \<^verbatim>\<open>Explain\<close>), the empty history
  being rendered as \<^verbatim>\<open>[]\<close>. The instruction contains the description of the
  required JSON shape. When the Anthropic client answers with the one reply of the
  scenario and \<^verbatim>\<open>json.loads\<close> decodes it to the structure it denotes,
  \<^verbatim>\<open>analyze_prompt\<close> returns exactly that structure and reports nothing.
\<close>

theorem scenario_end_to_end:
  "occurrences ''x'' (analysis_prompt scenario) = 11 \<and>
   occurrences ''x'' (analysis_prompt blank_scenario) = 3 \<and>
   json_dumps (conversation_history scenario) = ''[]'' \<and>
   sublist json_shape (analysis_prompt scenario) \<and>
   (anthropic_client self = Some k \<and>
    messages_create e k (anthropic_request_of scenario) = Inr [scenario_reply] \<and>
    json_loads e scenario_reply = Inr scenario_result \<longrightarrow>
      analyze_prompt e self scenario =
        (scenario_result, [Anthropic_create k (anthropic_request_of scenario)]))"
proof (intro conjI impI)
  show "json_dumps (conversation_history scenario) = ''[]''"
    by (simp add: json_dumps_def scenario_def)
next
  assume "anthropic_client self = Some k \<and>
    messages_create e k (anthropic_request_of scenario) = Inr [scenario_reply] \<and>
    json_loads e scenario_reply = Inr scenario_result"
  then show "analyze_prompt e self scenario =
        (scenario_result, [Anthropic_create k (anthropic_request_of scenario)])"
    using analyze_anthropic_ok [of scenario self k e scenario_reply "[]" scenario_result]
    by simp
qed (rule scenario_counts)+

theorem scenario_end_to_end_witness:
  "anthropic_client (fst (init both_secrets None)) = Some ''ka'' \<and>
   messages_create (mock_env scenario_reply) ''ka'' (anthropic_request_of scenario) =
     Inr [scenario_reply] \<and>
   json_loads (mock_env scenario_reply) scenario_reply = Inr scenario_result \<and>
   analyze_prompt (mock_env scenario_reply) (fst (init both_secrets None)) scenario =
     (scenario_result, [Anthropic_create ''ka'' (anthropic_request_of scenario)])"
  using scenario_end_to_end [of "fst (init both_secrets None)" "''ka''"
      "mock_env scenario_reply"]
  by simp

end
